theory Spec2Isabelle
  imports Complex_Main
begin

section \<open>Text primitives of the host language\<close>

text \<open>
  The program is the plotting page's script (\<^verbatim>\<open>script.js\<close>). Its texts are modelled as
  Isabelle strings, one \<^typ>\<open>char\<close> per code unit (code units 0..255). Numbers that the
  script obtains from \<^verbatim>\<open>parseInt\<close> and from \<^verbatim>\<open>Date.getTime\<close>, and the sums of
  their differences, are integers and are modelled as \<^typ>\<open>int\<close>; the model is exact
  as long as the integers stay below \<open>2 ^ 53\<close> (date parts of up to 15 digits), beyond
  which the host rounds. The hours and minutes of the availability text are floors of
  binary64 quotients and products; they are computed as the host computes them, with
  every operation rounded to the nearest binary64 number (\<open>toDouble\<close> below). Measured
  values and the derived savings are modelled as \<^typ>\<open>real\<close> with exact arithmetic,
  where the host rounds each product.
\<close>

definition isDigit :: "char \<Rightarrow> bool" where
  "isDigit c = (let n = (of_char c :: nat) in 48 \<le> n \<and> n \<le> 57)"

definition digitVal :: "char \<Rightarrow> nat" where
  "digitVal c = (of_char c :: nat) - 48"

text \<open>White space and line terminators of the host language among the code units 0..255.\<close>

definition isJsSpace :: "char \<Rightarrow> bool" where
  "isJsSpace c = (let n = (of_char c :: nat) in
     n = 9 \<or> n = 10 \<or> n = 11 \<or> n = 12 \<or> n = 13 \<or> n = 32 \<or> n = 160)"

definition trim :: "string \<Rightarrow> string" where
  "trim s = rev (dropWhile isJsSpace (rev (dropWhile isJsSpace s)))"

definition digitsValue :: "string \<Rightarrow> nat" where
  "digitsValue ds = foldl (\<lambda>a c. 10 * a + digitVal c) 0 ds"

text \<open>
  \<^verbatim>\<open>parseInt(s, 10)\<close>: leading white space is skipped, one sign is accepted, then the
  longest run of decimal digits is read and whatever follows is ignored. \<open>None\<close> is NaN.
\<close>

definition parseInt :: "string \<Rightarrow> int option" where
  "parseInt s =
     (let S = dropWhile isJsSpace s;
          neg = (case S of [] \<Rightarrow> False | c # _ \<Rightarrow> c = CHR ''-'');
          S' = (case S of [] \<Rightarrow> S | c # r \<Rightarrow> if c = CHR ''+'' \<or> c = CHR ''-'' then r else S);
          Z = takeWhile isDigit S'
      in if Z = [] then None
         else Some ((if neg then - 1 else 1) * int (digitsValue Z)))"

text \<open>\<^verbatim>\<open>String.prototype.split\<close> with a pattern that matches one separator character.\<close>

fun splitOn :: "(char \<Rightarrow> bool) \<Rightarrow> string \<Rightarrow> string list" where
  "splitOn sep [] = [[]]"
| "splitOn sep (c # cs) =
     (if sep c then [] # splitOn sep cs
      else (case splitOn sep cs of [] \<Rightarrow> [[c]] | p # ps \<Rightarrow> (c # p) # ps))"

definition digitChar :: "nat \<Rightarrow> char" where
  "digitChar d = ''0123456789'' ! d"

fun natDigits :: "nat \<Rightarrow> string" where
  "natDigits n =
     (if n < 10 then [digitChar n]
      else natDigits (n div 10) @ [digitChar (n mod 10)])"

text \<open>\<^verbatim>\<open>toString\<close> of an integral number.\<close>

definition numToString :: "int \<Rightarrow> string" where
  "numToString i = (if i < 0 then CHR ''-'' # natDigits (nat (- i)) else natDigits (nat i))"

definition padStart :: "nat \<Rightarrow> char \<Rightarrow> string \<Rightarrow> string" where
  "padStart n c s = replicate (n - length s) c @ s"

section \<open>parseTimestamp\<close>

text \<open>
  The date text is split on \<^verbatim>\<open>/[\/\-]/\<close>. The constructor \<^verbatim>\<open>new Date(iso)\<close> followed by
  \<^verbatim>\<open>getTime()\<close> belongs to the host (its result depends on the host's time zone and on
  its leniency); it is the parameter \<open>hostDate\<close>, with \<open>None\<close> for NaN.
\<close>

definition isDateSep :: "char \<Rightarrow> bool" where
  "isDateSep c = (c = CHR ''/'' \<or> c = CHR ''-'')"

definition isoString :: "int \<Rightarrow> int \<Rightarrow> int \<Rightarrow> string \<Rightarrow> string" where
  "isoString year month day timeStr =
     padStart 4 CHR ''0'' (numToString year) @ ''-'' @
     padStart 2 CHR ''0'' (numToString month) @ ''-'' @
     padStart 2 CHR ''0'' (numToString day) @ ''T'' @ trim timeStr"

definition parseTimestamp :: "(string \<Rightarrow> int option) \<Rightarrow> string \<Rightarrow> string \<Rightarrow> int option" where
  "parseTimestamp hostDate dateStr timeStr =
     (if dateStr = [] \<or> timeStr = [] then None
      else
        let parts = splitOn isDateSep dateStr in
        if length parts < 3 then None
        else
          (case (parseInt (parts ! 0), parseInt (parts ! 1), parseInt (parts ! 2)) of
             (Some p1, Some p2, Some p3) \<Rightarrow>
               let (day, month, year) =
                     (if p2 > 12 \<and> p1 \<le> 12 then (p2, p1, p3)
                      else if p1 > 12 \<and> p2 \<le> 12 then (p1, p2, p3)
                      else (p2, p1, p3));
                   year = (if year < 100 then year + 2000 else year)
               in hostDate (isoString year month day timeStr)
           | _ \<Rightarrow> None))"

section \<open>computeMetrics\<close>

text \<open>
  A sample is \<^verbatim>\<open>{ t, value }\<close>. The two rate constants are the script's variables
  \<^verbatim>\<open>dieselPrice\<close> and \<^verbatim>\<open>dieselConsumption\<close>, which \<^verbatim>\<open>init\<close> may overwrite from the
  store; they are passed explicitly.
\<close>

record point =
  t :: int
  val :: real  \<comment> \<open>the field \<^verbatim>\<open>value\<close>\<close>

record config =
  dieselPrice :: real
  dieselConsumption :: real

record metrics =
  availability :: string
  economiaLitros :: real
  economiaRS :: real
  economiaMes :: real
  lastTemperature :: "real option"

definition emptyMetrics :: metrics where
  "emptyMetrics =
     \<lparr>availability = ''00:00 h'', economiaLitros = 0, economiaRS = 0, economiaMes = 0,
      lastTemperature = None\<rparr>"

definition inRange :: "int \<Rightarrow> int \<Rightarrow> point \<Rightarrow> bool" where
  "inRange startTime endTime p = (t p \<ge> startTime \<and> t p \<le> endTime)"

text \<open>The \<^verbatim>\<open>for\<close> loop over \<^verbatim>\<open>filtered\<close>, from index 1, with its variable \<^verbatim>\<open>prev\<close>.\<close>

fun accumulate :: "point \<Rightarrow> point list \<Rightarrow> int \<times> int \<Rightarrow> int \<times> int" where
  "accumulate prev [] acc = acc"
| "accumulate prev (cur # rest) (availabilityMs, economiaMs) =
     (let dt = t cur - t prev in
      accumulate cur rest
        (if val prev > 50 \<and> val cur > 50 then availabilityMs + dt else availabilityMs,
         if val prev > 40 \<and> val cur > 40 then economiaMs + dt else economiaMs))"

text \<open>
  Binary64 arithmetic: a real number is rounded to the nearest number with a 53-bit
  significand, ties to the even significand; below \<open>2 ^ - 1022\<close> the spacing stays
  \<open>2 ^ - 1074\<close>. Overflow to \<^verbatim>\<open>Infinity\<close> is not modelled (it needs more than 300 digits).
\<close>

function bitLength :: "int \<Rightarrow> int" where
  "bitLength n = (if n \<le> 0 then 0 else 1 + bitLength (n div 2))"
  by pat_completeness auto
termination
  by (relation "measure nat") auto

definition pow2 :: "int \<Rightarrow> rat" where
  "pow2 k = (if k \<ge> 0 then 2 ^ nat k else 1 / 2 ^ nat (- k))"

text \<open>The floor of the binary logarithm of a positive rational.\<close>

definition ilog2 :: "rat \<Rightarrow> int" where
  "ilog2 x =
     (let (a, b) = quotient_of x;
          k = bitLength a - bitLength b
      in if pow2 k \<le> x then k else k - 1)"

definition roundHalfEven :: "rat \<Rightarrow> int" where
  "roundHalfEven x =
     (let f = \<lfloor>x\<rfloor>; d = x - of_int f
      in if d < 1 / 2 then f else if d > 1 / 2 then f + 1 else if even f then f else f + 1)"

definition toDouble :: "rat \<Rightarrow> rat" where
  "toDouble x =
     (if x = 0 then 0
      else
        let e = max (ilog2 \<bar>x\<bar>) (- 1022);
            q = pow2 (e - 52)
        in of_int (roundHalfEven (x / q)) * q)"

text \<open>
  \<^verbatim>\<open>availHrs = availabilityMs / 3600000\<close>, \<^verbatim>\<open>Math.floor(availHrs)\<close> and
  \<^verbatim>\<open>Math.floor((availHrs - availHours) * 60)\<close>, each operation in binary64.
\<close>

definition formatAvailability :: "int \<Rightarrow> string" where
  "formatAvailability availabilityMs =
     (let availHrs = toDouble (of_int availabilityMs / 3600000);
          availHours = \<lfloor>availHrs\<rfloor>;
          availMinutes = \<lfloor>toDouble (toDouble (availHrs - of_int availHours) * 60)\<rfloor>
      in padStart 2 CHR ''0'' (numToString availHours) @ '':'' @
         padStart 2 CHR ''0'' (numToString availMinutes) @ '' h'')"

definition computeMetrics :: "config \<Rightarrow> point list \<Rightarrow> int \<Rightarrow> int \<Rightarrow> metrics" where
  "computeMetrics cfg dataArr startTime endTime =
     (if dataArr = [] then emptyMetrics
      else
        let filtered = filter (inRange startTime endTime) dataArr in
        (case filtered of
           [] \<Rightarrow> emptyMetrics
         | first # rest \<Rightarrow>
             let (availabilityMs, economiaMs) = accumulate first rest (0, 0);
                 litros = (real_of_int economiaMs / 3600000) * dieselConsumption cfg;
                 rs = litros * dieselPrice cfg;
                 mes = rs * 30
             in \<lparr>availability = formatAvailability availabilityMs,
                 economiaLitros = litros, economiaRS = rs, economiaMes = mes,
                 lastTemperature = Some (val (last filtered))\<rparr>))"

section \<open>buildDataStructure\<close>

text \<open>
  A parsed row is an object from column name to cell text, here an association list in
  the order of the columns (column names are distinct). \<^verbatim>\<open>Object.keys\<close> lists the names
  in that order, except that the host puts names that are array indices first; such names
  have no marker \<open>SCA\<close> and add no sample, so the order of the samples is not affected.
  \<^verbatim>\<open>parseFloat\<close> belongs to the host and is the parameter \<open>hostParseFloat\<close>, with
  \<open>None\<close> for NaN.
\<close>

type_synonym row = "(string \<times> string) list"

text \<open>\<^verbatim>\<open>row[k1] || row[k2] || ... || ''\<close>: the first cell that is present and not empty.\<close>

fun orChain :: "row \<Rightarrow> string list \<Rightarrow> string" where
  "orChain r [] = []"
| "orChain r (k # ks) =
     (case map_of r k of
        None \<Rightarrow> orChain r ks
      | Some v \<Rightarrow> if v = [] then orChain r ks else v)"

text \<open>
  Matching with the flag \<^verbatim>\<open>i\<close> against a pattern of ASCII letters: two code units match
  when their upper-case forms agree, and no code unit above 127 matches an ASCII letter.
\<close>

definition upperCode :: "char \<Rightarrow> nat" where
  "upperCode c = (let n = (of_char c :: nat) in if 97 \<le> n \<and> n \<le> 122 then n - 32 else n)"

fun ciPrefix :: "string \<Rightarrow> string \<Rightarrow> bool" where
  "ciPrefix [] s = True"
| "ciPrefix (p # ps) [] = False"
| "ciPrefix (p # ps) (c # cs) = (upperCode c = upperCode p \<and> ciPrefix ps cs)"

fun ciContains :: "string \<Rightarrow> string \<Rightarrow> bool" where
  "ciContains pat [] = ciPrefix pat []"
| "ciContains pat (c # cs) = (ciPrefix pat (c # cs) \<or> ciContains pat cs)"

text \<open>\<^verbatim>\<open>/\$?(Date|Time|Data|Hora)/i.test(col)\<close>; the optional dollar sign matches anywhere.\<close>

definition isDateTimeCol :: "string \<Rightarrow> bool" where
  "isDateTimeCol col =
     (ciContains ''Date'' col \<or> ciContains ''Time'' col \<or>
      ciContains ''Data'' col \<or> ciContains ''Hora'' col)"

text \<open>\<^verbatim>\<open>col.match(/SCA(\d{2})/i)\<close>: the leftmost match; the result is the captured group.\<close>

fun matchSCA :: "string \<Rightarrow> string option" where
  "matchSCA [] = None"
| "matchSCA (c # cs) =
     (if ciPrefix ''SCA'' (c # cs) \<and>
         (case drop 3 (c # cs) of d1 # d2 # _ \<Rightarrow> isDigit d1 \<and> isDigit d2 | _ \<Rightarrow> False)
      then Some (take 2 (drop 3 (c # cs)))
      else matchSCA cs)"

text \<open>\<^verbatim>\<open>replace(',', '.')\<close> replaces the first comma only.\<close>

fun replaceFirst :: "char \<Rightarrow> char \<Rightarrow> string \<Rightarrow> string" where
  "replaceFirst a b [] = []"
| "replaceFirst a b (c # cs) = (if c = a then b # cs else c # replaceFirst a b cs)"

record build =
  motorData :: "int \<rightharpoonup> point list"
  minTime :: "int option"
  maxTime :: "int option"

text \<open>The body of \<^verbatim>\<open>Object.keys(row).forEach(col => ...)\<close> for one column.\<close>

definition processCol ::
  "(string \<Rightarrow> real option) \<Rightarrow> int \<Rightarrow> row \<Rightarrow> (int \<rightharpoonup> point list) \<Rightarrow> string \<Rightarrow> (int \<rightharpoonup> point list)" where
  "processCol hostParseFloat ts r md col =
     (if isDateTimeCol col then md
      else
        (case map_of r col of
           None \<Rightarrow> md
         | Some cell \<Rightarrow>
             if cell = [] then md
             else
               (case hostParseFloat (replaceFirst CHR '','' CHR ''.'' cell) of
                  None \<Rightarrow> md
                | Some v \<Rightarrow>
                    (case matchSCA col of
                       None \<Rightarrow> md
                     | Some digits \<Rightarrow>
                         (case parseInt digits of
                            None \<Rightarrow> md
                          | Some motorId \<Rightarrow>
                              md(motorId \<mapsto>
                                 (case md motorId of None \<Rightarrow> [] | Some s \<Rightarrow> s) @
                                 [\<lparr>t = ts, val = v\<rparr>]))))))"

text \<open>
  The body of \<^verbatim>\<open>table.forEach(row => ...)\<close>. In \<open>minTime\<close> and \<open>maxTime\<close> the value
  \<open>None\<close> stands for the initial \<^verbatim>\<open>Infinity\<close> and \<^verbatim>\<open>-Infinity\<close>.
\<close>

definition processRow ::
  "(string \<Rightarrow> real option) \<Rightarrow> (string \<Rightarrow> int option) \<Rightarrow> build \<Rightarrow> row \<Rightarrow> build" where
  "processRow hostParseFloat hostDate st r =
     (let dateStr = orChain r [''$Date'', ''Date'', ''Data'', ''data''];
          timeStr = orChain r [''$Time'', ''Time'', ''Hora'', ''hora'']
      in case parseTimestamp hostDate dateStr timeStr of
           None \<Rightarrow> st
         | Some ts \<Rightarrow>
             \<lparr>motorData = foldl (processCol hostParseFloat ts r) (motorData st) (map fst r),
              minTime = (case minTime st of None \<Rightarrow> Some ts
                         | Some m \<Rightarrow> if ts < m then Some ts else Some m),
              maxTime = (case maxTime st of None \<Rightarrow> Some ts
                         | Some m \<Rightarrow> if ts > m then Some ts else Some m)\<rparr>)"

definition collectRows ::
  "(string \<Rightarrow> real option) \<Rightarrow> (string \<Rightarrow> int option) \<Rightarrow> row list list \<Rightarrow> build" where
  "collectRows hostParseFloat hostDate tables =
     foldl (foldl (processRow hostParseFloat hostDate))
       \<lparr>motorData = Map.empty, minTime = None, maxTime = None\<rparr> tables"

text \<open>
  \<^verbatim>\<open>motorData[key].sort((a, b) => a.t - b.t)\<close> for every key: the host's sort is stable,
  as is \<^const>\<open>sort_key\<close>.
\<close>

definition buildDataStructure ::
  "(string \<Rightarrow> real option) \<Rightarrow> (string \<Rightarrow> int option) \<Rightarrow> row list list \<Rightarrow> build" where
  "buildDataStructure hostParseFloat hostDate tables =
     (let st = collectRows hostParseFloat hostDate tables
      in st\<lparr>motorData := (\<lambda>key. map_option (sort_key t) (motorData st key))\<rparr>)"

section \<open>updateSummaryPanel\<close>

text \<open>
  The figures that the summary panel shows, computed before the panel's markup is built
  (the panel element is taken to exist). \<open>md\<close> is the script's variable \<^verbatim>\<open>motorData\<close>
  and \<open>heatingData motorId\<close> is the truth value of
  \<^verbatim>\<open>heatingData && heatingData[motorId]\<close>.
\<close>

record summary =
  heatingMotors :: "int list"
  totalLitrosHeating :: real
  totalRSHeating :: real
  totalMonthlyProjection :: real

definition hasData :: "(int \<rightharpoonup> point list) \<Rightarrow> int \<Rightarrow> bool" where
  "hasData md motorId = (case md motorId of None \<Rightarrow> False | Some s \<Rightarrow> length s > 0)"

definition seriesOf :: "(int \<rightharpoonup> point list) \<Rightarrow> int \<Rightarrow> point list" where
  "seriesOf md motorId = (case md motorId of None \<Rightarrow> [] | Some s \<Rightarrow> s)"

definition updateSummaryPanel ::
  "config \<Rightarrow> (int \<rightharpoonup> point list) \<Rightarrow> (int \<Rightarrow> bool) \<Rightarrow> int \<Rightarrow> int \<Rightarrow> summary" where
  "updateSummaryPanel cfg md heatingData startTime endTime =
     (let heatingMotors =
            filter (\<lambda>motorId. heatingData motorId \<and> hasData md motorId) [1..23];
          (totalLitrosHeating, totalRSHeating) =
            foldl (\<lambda>(litros, rs) motorId.
                     let m = computeMetrics cfg (seriesOf md motorId) startTime endTime
                     in (litros + economiaLitros m, rs + economiaRS m))
                  (0, 0) heatingMotors;
          totalMonthlyProjection =
            foldl (\<lambda>total motorId.
                     if hasData md motorId
                     then total + economiaMes (computeMetrics cfg (seriesOf md motorId) startTime endTime)
                     else total)
                  0 [1..23]
      in \<lparr>heatingMotors = heatingMotors, totalLitrosHeating = totalLitrosHeating,
          totalRSHeating = totalRSHeating, totalMonthlyProjection = totalMonthlyProjection\<rparr>)"

section \<open>Notions of the specification\<close>



text \<open>
  The specification's accumulators: over the consecutive pairs \<open>(prev, cur)\<close> of a
  sequence, the sum of \<open>t cur - t prev\<close> for the pairs with both values above the
  threshold.
\<close>

definition intervalSum :: "real \<Rightarrow> point list \<Rightarrow> int" where
  "intervalSum threshold ps =
     sum_list (map (\<lambda>(prev, cur). if val prev > threshold \<and> val cur > threshold
                                   then t cur - t prev else 0)
                   (zip ps (tl ps)))"

text \<open>
  Insertion order: the samples that one column, and then one row, adds to the series of
  the machine \<open>key\<close>, and their concatenation over the rows of the tables in the order
  supplied.
\<close>

definition colPoints ::
  "(string \<Rightarrow> real option) \<Rightarrow> int \<Rightarrow> row \<Rightarrow> int \<Rightarrow> string \<Rightarrow> point list" where
  "colPoints hostParseFloat ts r key col =
     seriesOf (processCol hostParseFloat ts r Map.empty col) key"

definition rowPoints ::
  "(string \<Rightarrow> real option) \<Rightarrow> (string \<Rightarrow> int option) \<Rightarrow> int \<Rightarrow> row \<Rightarrow> point list" where
  "rowPoints hostParseFloat hostDate key r =
     seriesOf (motorData (processRow hostParseFloat hostDate
        \<lparr>motorData = Map.empty, minTime = None, maxTime = None\<rparr> r)) key"

definition insertionOrder ::
  "(string \<Rightarrow> real option) \<Rightarrow> (string \<Rightarrow> int option) \<Rightarrow> int \<Rightarrow> row list list \<Rightarrow> point list" where
  "insertionOrder hostParseFloat hostDate key tables =
     concat (map (rowPoints hostParseFloat hostDate key) (concat tables))"

section \<open>Sample inputs\<close>

text \<open>
  A host in the UTC zone, at the texts that the examples use: 10:00 and 11:00 on
  15 March 2024, in milliseconds since the epoch.
\<close>

definition sampleHostDate :: "string \<Rightarrow> int option" where
  "sampleHostDate s =
     (if s = ''2024-03-15T10:00'' then Some 1710496800000
      else if s = ''2024-03-15T11:00'' then Some 1710500400000
      else None)"

definition sampleParseFloat :: "string \<Rightarrow> real option" where
  "sampleParseFloat s =
     (if s = ''61.5'' then Some (123 / 2)
      else if s = ''70'' then Some 70
      else if s = ''55'' then Some 55
      else None)"

text \<open>The default rate constants of the script, and the two-sample series of the specification.\<close>

definition sampleConfig :: config where
  "sampleConfig = \<lparr>dieselPrice = 53 / 10, dieselConsumption = 63 / 10\<rparr>"

definition sampleSeries :: "point list" where
  "sampleSeries = [\<lparr>t = 0, val = 60\<rparr>, \<lparr>t = 3600000, val = 70\<rparr>]"

text \<open>
  Two tables. Machine 7 is read at 11:00 and then at 10:00 in the first table and once
  more at 10:00 in the second; the second row also has a sensor column with \<open>Data\<close>
  inside its name.
\<close>

definition sampleTables :: "row list list" where
  "sampleTables =
     [[[(''$Date'', ''15/03/24''), (''$Time'', ''11:00''), (''SCA071TE402PV'', ''70'')],
       [(''$Date'', ''15/03/24''), (''$Time'', ''10:00''), (''SCA071TE402PV'', ''61,5''),
        (''SCA07DataTE'', ''55'')]],
      [[(''Data'', ''03/15/24''), (''Hora'', ''10:00''), (''sca072TE402PV'', ''70'')]]]"

definition everyMotorHeated :: "int \<Rightarrow> bool" where
  "everyMotorHeated motorId = True"

definition onlyMotor5Heated :: "int \<Rightarrow> bool" where
  "onlyMotor5Heated motorId = (motorId = 5)"

section \<open>Properties of parseTimestamp\<close>

lemmas text_defs = isDateSep_def parseInt_def isJsSpace_def isDigit_def digitsValue_def
  digitVal_def isoString_def padStart_def numToString_def digitChar_def trim_def

lemma splitOn_not_Nil: "splitOn sep s \<noteq> []"
  by (induction s) (auto split: list.splits)

text \<open>
  With three parts that \<open>parseInt\<close> reads, the day and the month trade places only
  when the first part is above 12 and the second is not.
\<close>

lemma parseTimestamp_parts:
  assumes "timeStr \<noteq> []" and "splitOn isDateSep dateStr = a # b # c # others"
    and "parseInt a = Some p1" and "parseInt b = Some p2" and "parseInt c = Some p3"
  shows "parseTimestamp hostDate dateStr timeStr =
           hostDate (isoString (if p3 < 100 then p3 + 2000 else p3)
                       (if p1 > 12 \<and> p2 \<le> 12 then p2 else p1)
                       (if p1 > 12 \<and> p2 \<le> 12 then p1 else p2) timeStr)"
proof -
  have "dateStr \<noteq> []" using assms(2) by auto
  then show ?thesis
    using assms by (simp add: parseTimestamp_def Let_def)
qed

lemma parseInt_samples:
  "parseInt ''15'' = Some 15" "parseInt ''03'' = Some 3" "parseInt ''24'' = Some 24"
  "parseInt ''15x'' = Some 15"
  by (simp_all add: text_defs)

lemma isoString_sample: "isoString 2024 3 15 timeStr = ''2024-03-15T'' @ trim timeStr"
  by (simp add: isoString_def padStart_def numToString_def digitChar_def)

lemma trim_sample: "trim ''10:00'' = ''10:00''"
  by (simp add: trim_def isJsSpace_def)

text \<open>
  Claim C1. For a date text whose first three parts on splitting at \<open>/\<close> or \<open>-\<close> are
  read as the numbers \<open>p1\<close>, \<open>p2\<close>, \<open>p3\<close>, and a non-empty time text, \<open>parseTimestamp\<close>
  hands to the host the ISO text built with: month \<open>p1\<close> and day \<open>p2\<close> when \<open>p2 > 12\<close> and
  \<open>p1 \<le> 12\<close>; otherwise day \<open>p1\<close> and month \<open>p2\<close> when \<open>p1 > 12\<close> and \<open>p2 \<le> 12\<close>;
  otherwise (both at most 12, and also both above 12) month \<open>p1\<close> and day \<open>p2\<close>; and the
  year \<open>p3 + 2000\<close> when \<open>p3 < 100\<close>, else \<open>p3\<close>.
\<close>

theorem parseTimestamp_day_month_year:
  assumes "timeStr \<noteq> []" and "splitOn isDateSep dateStr = a # b # c # others"
    and "parseInt a = Some p1" and "parseInt b = Some p2" and "parseInt c = Some p3"
  shows "parseTimestamp hostDate dateStr timeStr =
           hostDate (isoString (if p3 < 100 then p3 + 2000 else p3)
                       (if p2 > 12 \<and> p1 \<le> 12 then p1
                        else if p1 > 12 \<and> p2 \<le> 12 then p2 else p1)
                       (if p2 > 12 \<and> p1 \<le> 12 then p2
                        else if p1 > 12 \<and> p2 \<le> 12 then p1 else p2) timeStr)"
  using parseTimestamp_parts [OF assms, of hostDate] by simp

text \<open>
  The two examples of the specification: \<open>15/03/24\<close> and \<open>03/15/24\<close> at \<open>10:00\<close> both
  resolve to 15 March 2024.
\<close>

theorem parseTimestamp_day_month_year_witness:
  "parseTimestamp sampleHostDate ''15/03/24'' ''10:00'' = Some 1710496800000 \<and>
   parseTimestamp sampleHostDate ''03/15/24'' ''10:00'' = Some 1710496800000 \<and>
   isoString 2024 3 15 ''10:00'' = ''2024-03-15T10:00''"
proof -
  have nonempty: "''10:00'' \<noteq> []" by simp
  have s1: "splitOn isDateSep ''15/03/24'' = ''15'' # ''03'' # ''24'' # []"
    by (simp add: isDateSep_def)
  have s2: "splitOn isDateSep ''03/15/24'' = ''03'' # ''15'' # ''24'' # []"
    by (simp add: isDateSep_def)
  have iso: "isoString 2024 3 15 ''10:00'' = ''2024-03-15T10:00''"
    by (simp add: isoString_sample trim_sample)
  show ?thesis
    using parseTimestamp_day_month_year
            [OF nonempty s1 parseInt_samples(1) parseInt_samples(2) parseInt_samples(3),
             of sampleHostDate]
      parseTimestamp_day_month_year
            [OF nonempty s2 parseInt_samples(2) parseInt_samples(1) parseInt_samples(3),
             of sampleHostDate]
      iso
    by (simp add: sampleHostDate_def)
qed






lemma splitOn_no_sep: "\<forall>ch \<in> set a. \<not> sep ch \<Longrightarrow> splitOn sep a = [a]"
  by (induction a) auto

lemma splitOn_append_sep:
  "\<forall>ch \<in> set a. \<not> sep ch \<Longrightarrow> sep x \<Longrightarrow> splitOn sep (a @ x # rest) = a # splitOn sep rest"
  by (induction a) auto

lemma splitOn_parts_no_sep: "p \<in> set (splitOn sep s) \<Longrightarrow> ch \<in> set p \<Longrightarrow> \<not> sep ch"
proof (induction s arbitrary: p)
  case Nil
  then show ?case by simp
next
  case (Cons c cs)
  show ?case
  proof (cases "sep c")
    case True
    with Cons show ?thesis by auto
  next
    case False
    obtain q qs where q: "splitOn sep cs = q # qs"
      using splitOn_not_Nil [of sep cs] by (cases "splitOn sep cs") auto
    with False Cons.prems have "p = c # q \<or> p \<in> set qs" by auto
    then show ?thesis
    proof
      assume "p = c # q"
      with Cons.prems(2) have "ch = c \<or> ch \<in> set q" by auto
      then show ?thesis using False Cons.IH [of q] q by auto
    next
      assume "p \<in> set qs"
      then show ?thesis using Cons.IH [of p] q Cons.prems(2) by auto
    qed
  qed
qed

lemma splitOn_join3:
  assumes "splitOn isDateSep dateStr = a # b # c # extra"
  shows "splitOn isDateSep (a @ ''/'' @ b @ ''/'' @ c) = [a, b, c]"
proof -
  have n: "\<forall>ch \<in> set a. \<not> isDateSep ch" "\<forall>ch \<in> set b. \<not> isDateSep ch"
    "\<forall>ch \<in> set c. \<not> isDateSep ch"
    using splitOn_parts_no_sep [of _ isDateSep dateStr] assms by auto
  have s: "isDateSep CHR ''/''" by (simp add: isDateSep_def)
  show ?thesis
    using n s by (simp add: splitOn_append_sep splitOn_no_sep)
qed

lemma parseTimestamp_value:
  assumes "splitOn isDateSep dateStr = a # b # c # extra"
  shows "parseTimestamp hostDate dateStr timeStr =
           (if timeStr = [] then None
            else case parseInt a of None \<Rightarrow> None | Some p1 \<Rightarrow>
              (case parseInt b of None \<Rightarrow> None | Some p2 \<Rightarrow>
                (case parseInt c of None \<Rightarrow> None | Some p3 \<Rightarrow>
                   hostDate (isoString (if p3 < 100 then p3 + 2000 else p3)
                               (if p1 > 12 \<and> p2 \<le> 12 then p2 else p1)
                               (if p1 > 12 \<and> p2 \<le> 12 then p1 else p2) timeStr))))"
proof -
  have "dateStr \<noteq> []" using assms by auto
  then show ?thesis
    using assms by (auto simp: parseTimestamp_def Let_def split: option.splits)
qed

text \<open>
  Claim C10. More than three parts are no failure, and what follows the third part is
  never read: a date text with at least three parts resolves, for every host and every
  time text, exactly as the text of its first three parts alone does, namely to what the
  host makes of the year, month and day read from these three parts.
\<close>

theorem parseTimestamp_extra_parts:
  assumes "splitOn isDateSep dateStr = a # b # c # extra"
  shows "parseTimestamp hostDate dateStr timeStr =
           parseTimestamp hostDate (a @ ''/'' @ b @ ''/'' @ c) timeStr \<and>
         splitOn isDateSep (a @ ''/'' @ b @ ''/'' @ c) = [a, b, c] \<and>
         parseTimestamp hostDate dateStr timeStr =
           (if timeStr = [] then None
            else case parseInt a of None \<Rightarrow> None | Some p1 \<Rightarrow>
              (case parseInt b of None \<Rightarrow> None | Some p2 \<Rightarrow>
                (case parseInt c of None \<Rightarrow> None | Some p3 \<Rightarrow>
                   hostDate (isoString (if p3 < 100 then p3 + 2000 else p3)
                               (if p1 > 12 \<and> p2 \<le> 12 then p2 else p1)
                               (if p1 > 12 \<and> p2 \<le> 12 then p1 else p2) timeStr))))"
proof -
  have j: "splitOn isDateSep (a @ ''/'' @ b @ ''/'' @ c) = a # b # c # []"
    by (rule splitOn_join3 [OF assms])
  have "parseTimestamp hostDate dateStr timeStr =
           parseTimestamp hostDate (a @ ''/'' @ b @ ''/'' @ c) timeStr"
    unfolding parseTimestamp_value [OF assms] parseTimestamp_value [OF j] ..
  then show ?thesis
    using j parseTimestamp_value [OF assms, of hostDate timeStr] by simp
qed

text \<open>
  For every host and every time text \<open>15/03/24/99\<close> resolves as \<open>15/03/24\<close> does; with
  the sample host at \<open>10:00\<close>, to 15 March 2024.
\<close>

theorem parseTimestamp_extra_parts_witness:
  "(\<forall>hostDate timeStr.
      parseTimestamp hostDate ''15/03/24/99'' timeStr =
        parseTimestamp hostDate ''15/03/24'' timeStr) \<and>
   splitOn isDateSep ''15/03/24/99'' = [''15'', ''03'', ''24'', ''99''] \<and>
   parseTimestamp sampleHostDate ''15/03/24/99'' ''10:00'' = Some 1710496800000 \<and>
   parseTimestamp sampleHostDate ''15/03/24'' ''10:00'' = Some 1710496800000"
proof -
  have s4: "splitOn isDateSep ''15/03/24/99'' = ''15'' # ''03'' # ''24'' # [''99'']"
    by (simp add: isDateSep_def)
  note th = parseTimestamp_extra_parts [OF s4]
  have same: "parseTimestamp hostDate ''15/03/24/99'' timeStr =
        parseTimestamp hostDate ''15/03/24'' timeStr" for hostDate timeStr
    using th [of hostDate timeStr, THEN conjunct1] by simp
  have v: "parseTimestamp sampleHostDate ''15/03/24/99'' ''10:00'' = Some 1710496800000"
    using th [of sampleHostDate "''10:00''", THEN conjunct2, THEN conjunct2]
    by (simp add: parseInt_samples isoString_sample trim_sample sampleHostDate_def)
  have w: "parseTimestamp sampleHostDate ''15/03/24'' ''10:00'' = Some 1710496800000"
    using same [of sampleHostDate "''10:00''"] v by simp
  show ?thesis
    using same v s4 w by blast
qed

section \<open>Properties of computeMetrics\<close>

lemma intervalSum_simps:
  "intervalSum th [] = 0"
  "intervalSum th [p] = 0"
  "intervalSum th (p # q # ps) =
     (if val p > th \<and> val q > th then t q - t p else 0) + intervalSum th (q # ps)"
  by (simp_all add: intervalSum_def)

lemma accumulate_intervalSum:
  "accumulate prev ps (a, e) =
     (a + intervalSum 50 (prev # ps), e + intervalSum 40 (prev # ps))"
proof (induction ps arbitrary: prev a e)
  case Nil
  show ?case by (simp add: intervalSum_simps)
next
  case (Cons q ps)
  show ?case
    by (simp add: Cons.IH intervalSum_simps Let_def)
qed

lemma inRange_eq: "(\<lambda>p. startTime \<le> t p \<and> t p \<le> endTime) = inRange startTime endTime"
  by (auto simp: inRange_def)

lemma computeMetrics_unfold:
  "computeMetrics cfg dataArr startTime endTime =
     (if filter (inRange startTime endTime) dataArr = [] then emptyMetrics
      else
        \<lparr>availability =
           formatAvailability (intervalSum 50 (filter (inRange startTime endTime) dataArr)),
         economiaLitros =
           real_of_int (intervalSum 40 (filter (inRange startTime endTime) dataArr)) / 3600000 *
           dieselConsumption cfg,
         economiaRS =
           real_of_int (intervalSum 40 (filter (inRange startTime endTime) dataArr)) / 3600000 *
           dieselConsumption cfg * dieselPrice cfg,
         economiaMes =
           real_of_int (intervalSum 40 (filter (inRange startTime endTime) dataArr)) / 3600000 *
           dieselConsumption cfg * dieselPrice cfg * 30,
         lastTemperature = Some (val (last (filter (inRange startTime endTime) dataArr)))\<rparr>)"
proof (cases "filter (inRange startTime endTime) dataArr")
  case Nil
  then show ?thesis by (simp add: computeMetrics_def)
next
  case (Cons p ps)
  then have "dataArr \<noteq> []" by auto
  then show ?thesis
    using Cons by (simp add: computeMetrics_def accumulate_intervalSum Let_def)
qed

lemma intervalSum_nonneg:
  "sorted (map t ps) \<Longrightarrow> 0 \<le> intervalSum th ps"
proof (induction ps rule: induct_list012)
  case 1
  show ?case by (simp add: intervalSum_simps)
next
  case (2 p)
  show ?case by (simp add: intervalSum_simps)
next
  case (3 p q ps)
  then show ?case by (simp add: intervalSum_simps)
qed

lemma sampleSeries_filter:
  "filter (\<lambda>p. 0 \<le> t p \<and> t p \<le> 3600000) sampleSeries = sampleSeries"
  by (simp add: sampleSeries_def)

lemma sampleSeries_intervalSum:
  "intervalSum 50 sampleSeries = 3600000" "intervalSum 40 sampleSeries = 3600000"
  by (simp_all add: sampleSeries_def intervalSum_simps)

lemma formatAvailability_zero: "formatAvailability 0 = ''00:00 h''"
  by code_simp

lemma formatAvailability_hour: "formatAvailability 3600000 = ''01:00 h''"
  by code_simp

text \<open>
  Sixty-one minutes: the binary64 quotient is just below \<open>1 + 1/60\<close>, so the minutes
  are floored to 0, as in the script.
\<close>

lemma formatAvailability_61_minutes: "formatAvailability 3660000 = ''01:00 h''"
  by code_simp

text \<open>
  Claim C2. \<open>computeMetrics\<close> keeps the samples with \<open>startTime \<le> t \<le> endTime\<close> in their
  order. When there is such a sample, the loop over the consecutive pairs \<open>(prev, cur)\<close>
  of the kept samples ends with the availability accumulator at the sum of \<open>t cur - t prev\<close>
  over the pairs with both values above 50 and, independently, with the savings
  accumulator at the same sum over the pairs with both values above 40; the result's
  availability and litres are computed from these two. With a single kept sample both
  accumulators stay 0; otherwise the first pair adds its interval to each accumulator
  exactly when both its values exceed that accumulator's threshold.
\<close>

theorem computeMetrics_accumulators:
  assumes "filter (\<lambda>p. startTime \<le> t p \<and> t p \<le> endTime) dataArr = first # rest"
  shows "accumulate first rest (0, 0) =
           (intervalSum 50 (first # rest), intervalSum 40 (first # rest)) \<and>
         availability (computeMetrics cfg dataArr startTime endTime) =
           formatAvailability (intervalSum 50 (first # rest)) \<and>
         economiaLitros (computeMetrics cfg dataArr startTime endTime) =
           real_of_int (intervalSum 40 (first # rest)) / 3600000 * dieselConsumption cfg \<and>
         (if rest = [] then accumulate first rest (0, 0) = (0, 0)
          else accumulate first rest (0, 0) =
                 accumulate (hd rest) (tl rest)
                   (if val first > 50 \<and> val (hd rest) > 50 then t (hd rest) - t first else 0,
                    if val first > 40 \<and> val (hd rest) > 40 then t (hd rest) - t first else 0))"
proof -
  have f: "filter (inRange startTime endTime) dataArr = first # rest"
    using assms by (simp add: inRange_eq)
  have acc: "accumulate first rest (0, 0) =
           (intervalSum 50 (first # rest), intervalSum 40 (first # rest))"
    by (simp add: accumulate_intervalSum)
  have m: "availability (computeMetrics cfg dataArr startTime endTime) =
           formatAvailability (intervalSum 50 (first # rest)) \<and>
         economiaLitros (computeMetrics cfg dataArr startTime endTime) =
           real_of_int (intervalSum 40 (first # rest)) / 3600000 * dieselConsumption cfg"
    by (simp add: computeMetrics_unfold f)
  have step: "(if rest = [] then accumulate first rest (0, 0) = (0, 0)
          else accumulate first rest (0, 0) =
                 accumulate (hd rest) (tl rest)
                   (if val first > 50 \<and> val (hd rest) > 50 then t (hd rest) - t first else 0,
                    if val first > 40 \<and> val (hd rest) > 40 then t (hd rest) - t first else 0))"
    by (cases rest) (simp_all add: Let_def)
  show ?thesis using acc m step by blast
qed

text \<open>
  The two-sample series of the specification: one hour for both accumulators. And two
  samples sixty-one minutes apart, the second at 45: the availability accumulator stays
  0 and the savings accumulator holds the sixty-one minutes.
\<close>

theorem computeMetrics_accumulators_witness:
  "filter (\<lambda>p. 0 \<le> t p \<and> t p \<le> 3600000) sampleSeries =
     \<lparr>t = 0, val = 60\<rparr> # [\<lparr>t = 3600000, val = 70\<rparr>] \<and>
   accumulate \<lparr>t = 0, val = 60\<rparr> [\<lparr>t = 3600000, val = 70\<rparr>] (0, 0) = (3600000, 3600000) \<and>
   availability (computeMetrics sampleConfig sampleSeries 0 3600000) = ''01:00 h'' \<and>
   economiaLitros (computeMetrics sampleConfig sampleSeries 0 3600000) = 63 / 10 \<and>
   accumulate \<lparr>t = 0, val = 60\<rparr> [\<lparr>t = 3660000, val = 45\<rparr>] (0, 0) = (0, 3660000) \<and>
   availability (computeMetrics sampleConfig
      [\<lparr>t = 0, val = 60\<rparr>, \<lparr>t = 3660000, val = 45\<rparr>] 0 3660000) = ''00:00 h'' \<and>
   availability (computeMetrics sampleConfig
      [\<lparr>t = 0, val = 60\<rparr>, \<lparr>t = 3660000, val = 70\<rparr>] 0 3660000) = ''01:00 h''"
proof -
  have f: "filter (\<lambda>p. 0 \<le> t p \<and> t p \<le> 3600000) sampleSeries =
     \<lparr>t = 0, val = 60\<rparr> # [\<lparr>t = 3600000, val = 70\<rparr>]"
    by (simp add: sampleSeries_def)
  have g: "filter (\<lambda>p. 0 \<le> t p \<and> t p \<le> 3660000)
      [\<lparr>t = 0, val = 60\<rparr>, \<lparr>t = 3660000, val = 45\<rparr>] =
     \<lparr>t = 0, val = 60\<rparr> # [\<lparr>t = 3660000, val = 45\<rparr>]"
    by simp
  have h: "filter (\<lambda>p. 0 \<le> t p \<and> t p \<le> 3660000)
      [\<lparr>t = 0, val = 60\<rparr>, \<lparr>t = 3660000, val = 70\<rparr>] =
     \<lparr>t = 0, val = 60\<rparr> # [\<lparr>t = 3660000, val = 70\<rparr>]"
    by simp
  have i: "intervalSum 50 [\<lparr>t = 0, val = 60\<rparr>, \<lparr>t = 3600000, val = 70\<rparr>] = 3600000"
    "intervalSum 40 [\<lparr>t = 0, val = 60\<rparr>, \<lparr>t = 3600000, val = 70\<rparr>] = 3600000"
    "intervalSum 50 [\<lparr>t = 0, val = 60\<rparr>, \<lparr>t = 3660000, val = 45\<rparr>] = 0"
    "intervalSum 40 [\<lparr>t = 0, val = 60\<rparr>, \<lparr>t = 3660000, val = 45\<rparr>] = 3660000"
    "intervalSum 50 [\<lparr>t = 0, val = 60\<rparr>, \<lparr>t = 3660000, val = 70\<rparr>] = 3660000"
    by (simp_all add: intervalSum_simps)
  have a: "accumulate \<lparr>t = 0, val = 60\<rparr> [\<lparr>t = 3600000, val = 70\<rparr>] (0, 0) = (3600000, 3600000) \<and>
      availability (computeMetrics sampleConfig sampleSeries 0 3600000) = ''01:00 h'' \<and>
      economiaLitros (computeMetrics sampleConfig sampleSeries 0 3600000) = 63 / 10"
    using computeMetrics_accumulators [OF f, of sampleConfig] i
    by (simp add: formatAvailability_hour sampleConfig_def)
  have b: "accumulate \<lparr>t = 0, val = 60\<rparr> [\<lparr>t = 3660000, val = 45\<rparr>] (0, 0) = (0, 3660000) \<and>
      availability (computeMetrics sampleConfig
        [\<lparr>t = 0, val = 60\<rparr>, \<lparr>t = 3660000, val = 45\<rparr>] 0 3660000) = ''00:00 h''"
    using computeMetrics_accumulators [OF g, of sampleConfig] i
    by (simp add: formatAvailability_zero)
  have c: "availability (computeMetrics sampleConfig
        [\<lparr>t = 0, val = 60\<rparr>, \<lparr>t = 3660000, val = 70\<rparr>] 0 3660000) = ''01:00 h''"
    using computeMetrics_accumulators [OF h, of sampleConfig] i
    by (simp add: formatAvailability_61_minutes)
  show ?thesis using f a b c by blast
qed

text \<open>
  Claim C3, as the code has it. For every series, every window and every pair of rate
  constants, the litres are the savings-eligible duration in hours times the consumption
  rate, the currency figure is the litres times the price, and the monthly projection is
  the currency figure times 30 whatever the window. For a series sorted by \<open>t\<close> all
  three are non-negative when the two rate constants are non-negative.
\<close>

theorem computeMetrics_savings:
  "economiaLitros (computeMetrics cfg dataArr startTime endTime) =
     real_of_int (intervalSum 40
        (filter (\<lambda>p. startTime \<le> t p \<and> t p \<le> endTime) dataArr)) / 3600000 *
     dieselConsumption cfg \<and>
   economiaRS (computeMetrics cfg dataArr startTime endTime) =
     economiaLitros (computeMetrics cfg dataArr startTime endTime) * dieselPrice cfg \<and>
   economiaMes (computeMetrics cfg dataArr startTime endTime) =
     economiaRS (computeMetrics cfg dataArr startTime endTime) * 30 \<and>
   (sorted (map t dataArr) \<and> 0 \<le> dieselConsumption cfg \<and> 0 \<le> dieselPrice cfg \<longrightarrow>
      0 \<le> economiaLitros (computeMetrics cfg dataArr startTime endTime) \<and>
      0 \<le> economiaRS (computeMetrics cfg dataArr startTime endTime) \<and>
      0 \<le> economiaMes (computeMetrics cfg dataArr startTime endTime))"
proof -
  let ?f = "filter (inRange startTime endTime) dataArr"
  let ?m = "computeMetrics cfg dataArr startTime endTime"
  have l: "economiaLitros ?m = real_of_int (intervalSum 40 ?f) / 3600000 * dieselConsumption cfg"
    by (simp add: computeMetrics_unfold emptyMetrics_def intervalSum_simps)
  have r: "economiaRS ?m = economiaLitros ?m * dieselPrice cfg"
    by (simp add: computeMetrics_unfold emptyMetrics_def)
  have m: "economiaMes ?m = economiaRS ?m * 30"
    by (simp add: computeMetrics_unfold emptyMetrics_def)
  have nonneg: "0 \<le> economiaLitros ?m \<and> 0 \<le> economiaRS ?m \<and> 0 \<le> economiaMes ?m"
    if srt: "sorted (map t dataArr)" and c: "0 \<le> dieselConsumption cfg"
      and p: "0 \<le> dieselPrice cfg"
  proof -
    have "sorted (map t ?f)" using srt by (rule sorted_filter)
    then have "0 \<le> intervalSum 40 ?f" by (rule intervalSum_nonneg)
    then have nn: "0 \<le> real_of_int (intervalSum 40 ?f) / 3600000" by simp
    have l0: "0 \<le> economiaLitros ?m" unfolding l using nn c by (rule mult_nonneg_nonneg)
    have r0: "0 \<le> economiaRS ?m" unfolding r using l0 p by (rule mult_nonneg_nonneg)
    have m0: "0 \<le> economiaMes ?m" unfolding m using r0 by simp
    show ?thesis using l0 r0 m0 by blast
  qed
  show ?thesis unfolding inRange_eq using l r m nonneg by blast
qed

text \<open>
  The example of the specification: consumption 6.30 and price 5.30 give 6.30 litres,
  33.39 and 1001.70.
\<close>

theorem computeMetrics_savings_witness:
  "sorted (map t sampleSeries) \<and>
   economiaLitros (computeMetrics sampleConfig sampleSeries 0 3600000) = 63 / 10 \<and>
   economiaRS (computeMetrics sampleConfig sampleSeries 0 3600000) = 3339 / 100 \<and>
   economiaMes (computeMetrics sampleConfig sampleSeries 0 3600000) = 10017 / 10 \<and>
   0 \<le> economiaLitros (computeMetrics sampleConfig sampleSeries 0 3600000) \<and>
   0 \<le> economiaRS (computeMetrics sampleConfig sampleSeries 0 3600000) \<and>
   0 \<le> economiaMes (computeMetrics sampleConfig sampleSeries 0 3600000)"
proof -
  have s: "sorted (map t sampleSeries)" by (simp add: sampleSeries_def)
  have c: "0 \<le> dieselConsumption sampleConfig" "0 \<le> dieselPrice sampleConfig"
    by (simp_all add: sampleConfig_def)
  note th = computeMetrics_savings [of sampleConfig sampleSeries 0 3600000]
  have v: "economiaLitros (computeMetrics sampleConfig sampleSeries 0 3600000) = 63 / 10 \<and>
     economiaRS (computeMetrics sampleConfig sampleSeries 0 3600000) = 3339 / 100 \<and>
     economiaMes (computeMetrics sampleConfig sampleSeries 0 3600000) = 10017 / 10"
    using th by (simp add: sampleSeries_filter sampleSeries_intervalSum sampleConfig_def)
  have n: "0 \<le> economiaLitros (computeMetrics sampleConfig sampleSeries 0 3600000) \<and>
     0 \<le> economiaRS (computeMetrics sampleConfig sampleSeries 0 3600000) \<and>
     0 \<le> economiaMes (computeMetrics sampleConfig sampleSeries 0 3600000)"
    using th s c by blast
  show ?thesis using s v n by blast
qed

text \<open>
  Claim C3, as stated, fails: the script takes any number as the stored price, and with
  the price \<open>-1\<close> the sorted two-sample series yields a negative currency figure and a
  negative monthly projection.
\<close>

theorem computeMetrics_negative_price_counterexample:
  "sorted (map t sampleSeries) \<and>
   economiaRS (computeMetrics \<lparr>dieselPrice = - 1, dieselConsumption = 63 / 10\<rparr>
     sampleSeries 0 3600000) = - (63 / 10) \<and>
   economiaMes (computeMetrics \<lparr>dieselPrice = - 1, dieselConsumption = 63 / 10\<rparr>
     sampleSeries 0 3600000) = - 189"
proof -
  have f: "filter (inRange 0 3600000) sampleSeries = sampleSeries"
    using sampleSeries_filter by (simp add: inRange_eq)
  have n: "sampleSeries \<noteq> []" by (simp add: sampleSeries_def)
  have s: "sorted (map t sampleSeries)" by (simp add: sampleSeries_def)
  show ?thesis
    using s n by (simp add: computeMetrics_unfold f sampleSeries_intervalSum)
qed

lemma sorted_last_max:
  "sorted (map t xs) \<Longrightarrow> q \<in> set xs \<Longrightarrow> t q \<le> t (last xs)"
  by (induction xs) auto

lemma last_filter_max:
  assumes "sorted (map t ps)" and "q \<in> set (filter P ps)"
  shows "t q \<le> t (last (filter P ps))"
proof -
  have "sorted (map t (filter P ps))" using assms(1) by (rule sorted_filter)
  then show ?thesis using assms(2) by (rule sorted_last_max)
qed

text \<open>
  Claim C4, as the code has it. The window is inclusive at both ends: a sample counts
  when \<open>startTime \<le> t \<le> endTime\<close>. For a series that is empty or has no sample in the
  window the result has the availability text \<open>00:00 h\<close> (which is also how a zero
  duration is formatted), zero litres, zero currency, zero monthly projection and no last
  value. Otherwise the last value is the value of the last sample in the window, which
  in a series sorted by \<open>t\<close> has the greatest \<open>t\<close> of the window.
\<close>

theorem computeMetrics_window:
  "(if \<exists>p \<in> set dataArr. startTime \<le> t p \<and> t p \<le> endTime
    then lastTemperature (computeMetrics cfg dataArr startTime endTime) =
           Some (val (last (filter (\<lambda>p. startTime \<le> t p \<and> t p \<le> endTime) dataArr))) \<and>
         (sorted (map t dataArr) \<longrightarrow>
            (\<forall>q \<in> set dataArr. startTime \<le> t q \<and> t q \<le> endTime \<longrightarrow>
               t q \<le> t (last (filter (\<lambda>p. startTime \<le> t p \<and> t p \<le> endTime) dataArr))))
    else computeMetrics cfg dataArr startTime endTime =
           \<lparr>availability = ''00:00 h'', economiaLitros = 0, economiaRS = 0, economiaMes = 0,
            lastTemperature = None\<rparr>) \<and>
   formatAvailability 0 = ''00:00 h''"
proof -
  let ?f = "filter (inRange startTime endTime) dataArr"
  have ex: "(\<exists>p \<in> set dataArr. startTime \<le> t p \<and> t p \<le> endTime) \<longleftrightarrow> ?f \<noteq> []"
    by (auto simp: filter_empty_conv inRange_def)
  show ?thesis
  proof (cases "?f = []")
    case True
    then show ?thesis
      using ex by (simp add: computeMetrics_unfold emptyMetrics_def formatAvailability_zero)
  next
    case False
    have l: "lastTemperature (computeMetrics cfg dataArr startTime endTime) = Some (val (last ?f))"
      using False by (simp add: computeMetrics_unfold)
    have m: "sorted (map t dataArr) \<longrightarrow>
            (\<forall>q \<in> set dataArr. startTime \<le> t q \<and> t q \<le> endTime \<longrightarrow> t q \<le> t (last ?f))"
    proof (intro impI ballI)
      fix q
      assume "sorted (map t dataArr)" "q \<in> set dataArr" "startTime \<le> t q \<and> t q \<le> endTime"
      then show "t q \<le> t (last ?f)"
        by (intro last_filter_max) (auto simp: inRange_def)
    qed
    show ?thesis
      using False ex l m unfolding inRange_eq by (simp add: formatAvailability_zero)
  qed
qed

text \<open>
  The two-sample series: samples exactly at the start and at the end of the window count,
  a window strictly between the two samples and an empty series give the zero result.
\<close>

theorem computeMetrics_window_witness:
  "lastTemperature (computeMetrics sampleConfig sampleSeries 0 3600000) = Some 70 \<and>
   lastTemperature (computeMetrics sampleConfig sampleSeries 0 0) = Some 60 \<and>
   lastTemperature (computeMetrics sampleConfig sampleSeries 3600000 3600000) = Some 70 \<and>
   computeMetrics sampleConfig sampleSeries 1 3599999 =
     \<lparr>availability = ''00:00 h'', economiaLitros = 0, economiaRS = 0, economiaMes = 0,
      lastTemperature = None\<rparr> \<and>
   computeMetrics sampleConfig [] 0 3600000 =
     \<lparr>availability = ''00:00 h'', economiaLitros = 0, economiaRS = 0, economiaMes = 0,
      lastTemperature = None\<rparr>"
  using computeMetrics_window [of sampleSeries 0 3600000 sampleConfig]
    computeMetrics_window [of sampleSeries 0 0 sampleConfig]
    computeMetrics_window [of sampleSeries 3600000 3600000 sampleConfig]
    computeMetrics_window [of sampleSeries 1 3599999 sampleConfig]
    computeMetrics_window [of "[]" 0 3600000 sampleConfig]
  by (simp add: sampleSeries_def)

text \<open>
  Claim C4, as stated, fails in the availability text alone: for an empty series it is
  \<open>00:00 h\<close>, with the unit, and not \<open>00:00\<close>.
\<close>

theorem computeMetrics_empty_format_counterexample:
  "availability (computeMetrics sampleConfig [] 0 3600000) \<noteq> ''00:00'' \<and>
   availability (computeMetrics sampleConfig [] 0 3600000) = ''00:00 h''"
  by (simp add: computeMetrics_def emptyMetrics_def)

section \<open>Properties of updateSummaryPanel\<close>

lemma hasData_iff: "hasData md motorId \<longleftrightarrow> (\<exists>ps. md motorId = Some ps \<and> ps \<noteq> [])"
  by (simp add: hasData_def split: option.splits)

lemma foldl_pair_sums:
  "foldl (\<lambda>(litros, rs) motorId. (litros + g motorId, rs + h motorId)) (a :: real, b :: real) xs =
     (a + sum_list (map g xs), b + sum_list (map h xs))"
  by (induction xs arbitrary: a b) (simp_all add: add.assoc)

lemma foldl_guarded_sum:
  "foldl (\<lambda>total motorId. if P motorId then total + f motorId else total) (a :: real) xs =
     a + sum_list (map f (filter P xs))"
  by (induction xs arbitrary: a) (simp_all add: add.assoc)

lemma heatingMotors_unfold:
  "heatingMotors (updateSummaryPanel cfg md heatingData startTime endTime) =
     filter (\<lambda>motorId. heatingData motorId \<and> hasData md motorId) [1..23]"
  by (simp add: updateSummaryPanel_def Let_def split: prod.splits)

lemma totals_unfold:
  "totalLitrosHeating (updateSummaryPanel cfg md heatingData startTime endTime) =
     sum_list (map (\<lambda>motorId. economiaLitros
                      (computeMetrics cfg (seriesOf md motorId) startTime endTime))
        (filter (\<lambda>motorId. heatingData motorId \<and> hasData md motorId) [1..23]))"
  "totalRSHeating (updateSummaryPanel cfg md heatingData startTime endTime) =
     sum_list (map (\<lambda>motorId. economiaRS
                      (computeMetrics cfg (seriesOf md motorId) startTime endTime))
        (filter (\<lambda>motorId. heatingData motorId \<and> hasData md motorId) [1..23]))"
  "totalMonthlyProjection (updateSummaryPanel cfg md heatingData startTime endTime) =
     sum_list (map (\<lambda>motorId. economiaMes
                      (computeMetrics cfg (seriesOf md motorId) startTime endTime))
        (filter (hasData md) [1..23]))"
  by (simp_all add: updateSummaryPanel_def Let_def foldl_pair_sums foldl_guarded_sum
      split: prod.splits)

text \<open>
  Claim C5, as the code has it. The list of heating machines holds exactly the machine
  identifiers from 1 to 23 whose heating flag is true and whose series has at least one
  sample; it is ascending, without repetition, and the same for every window.
\<close>

theorem updateSummaryPanel_heatingMotors:
  "set (heatingMotors (updateSummaryPanel cfg md heatingData startTime endTime)) =
     {motorId. 1 \<le> motorId \<and> motorId \<le> 23 \<and> heatingData motorId \<and>
               (\<exists>ps. md motorId = Some ps \<and> ps \<noteq> [])} \<and>
   sorted (heatingMotors (updateSummaryPanel cfg md heatingData startTime endTime)) \<and>
   distinct (heatingMotors (updateSummaryPanel cfg md heatingData startTime endTime)) \<and>
   heatingMotors (updateSummaryPanel cfg md heatingData startTime endTime) =
     heatingMotors (updateSummaryPanel cfg md heatingData startTime' endTime')"
proof -
  have "set (filter (\<lambda>motorId. heatingData motorId \<and> hasData md motorId) [1..23]) =
     {motorId. 1 \<le> motorId \<and> motorId \<le> 23 \<and> heatingData motorId \<and>
               (\<exists>ps. md motorId = Some ps \<and> ps \<noteq> [])}"
    by (auto simp: hasData_iff)
  moreover have "sorted (filter (\<lambda>motorId. heatingData motorId \<and> hasData md motorId) [1..23])"
    by (rule sorted_wrt_filter) simp
  moreover have "distinct (filter (\<lambda>motorId. heatingData motorId \<and> hasData md motorId) [1..23])"
    by simp
  ultimately show ?thesis by (simp add: heatingMotors_unfold)
qed

text \<open>
  Claim C5, as stated, fails: the loop stops at 23, so machine 24, flagged and with two
  samples, is not in the list.
\<close>

theorem updateSummaryPanel_bound_counterexample:
  "everyMotorHeated 24 \<and>
   (Map.empty(24 \<mapsto> sampleSeries)) 24 = Some sampleSeries \<and> sampleSeries \<noteq> [] \<and>
   24 \<notin> set (heatingMotors
     (updateSummaryPanel sampleConfig (Map.empty(24 \<mapsto> sampleSeries)) everyMotorHeated 0 3600000))"
proof -
  have "set (heatingMotors
     (updateSummaryPanel sampleConfig (Map.empty(24 \<mapsto> sampleSeries)) everyMotorHeated 0 3600000))
     \<subseteq> set [1..23]"
    unfolding heatingMotors_unfold by (rule filter_is_subset)
  then have "24 \<notin> set (heatingMotors
     (updateSummaryPanel sampleConfig (Map.empty(24 \<mapsto> sampleSeries)) everyMotorHeated 0 3600000))"
    by auto
  then show ?thesis by (simp add: everyMotorHeated_def sampleSeries_def)
qed

text \<open>
  Claim C6, as the code has it. The litres and the currency totals are the sums of the
  corresponding figures of \<open>computeMetrics\<close> over exactly the listed heating machines. The
  monthly total is the sum of the monthly projections over every machine from 1 to 23
  that has at least one sample, whatever its heating flag: changing the flags leaves it
  unchanged.
\<close>

theorem updateSummaryPanel_totals:
  "totalLitrosHeating (updateSummaryPanel cfg md heatingData startTime endTime) =
     sum_list (map (\<lambda>motorId. economiaLitros
                      (computeMetrics cfg (seriesOf md motorId) startTime endTime))
        (heatingMotors (updateSummaryPanel cfg md heatingData startTime endTime))) \<and>
   totalRSHeating (updateSummaryPanel cfg md heatingData startTime endTime) =
     sum_list (map (\<lambda>motorId. economiaRS
                      (computeMetrics cfg (seriesOf md motorId) startTime endTime))
        (heatingMotors (updateSummaryPanel cfg md heatingData startTime endTime))) \<and>
   totalMonthlyProjection (updateSummaryPanel cfg md heatingData startTime endTime) =
     sum_list (map (\<lambda>motorId. economiaMes
                      (computeMetrics cfg (seriesOf md motorId) startTime endTime))
        (filter (\<lambda>motorId. \<exists>ps. md motorId = Some ps \<and> ps \<noteq> []) [1..23])) \<and>
   totalMonthlyProjection (updateSummaryPanel cfg md heatingData startTime endTime) =
     totalMonthlyProjection (updateSummaryPanel cfg md heatingData' startTime endTime)"
proof -
  have "hasData md = (\<lambda>motorId. \<exists>ps. md motorId = Some ps \<and> ps \<noteq> [])"
    by (rule ext) (rule hasData_iff)
  then show ?thesis
    by (simp add: totals_unfold heatingMotors_unfold)
qed

lemma sampleSeries_metrics:
  "computeMetrics sampleConfig sampleSeries 0 3600000 =
     \<lparr>availability = ''01:00 h'', economiaLitros = 63 / 10, economiaRS = 3339 / 100,
      economiaMes = 10017 / 10, lastTemperature = Some 70\<rparr>"
proof -
  have f: "filter (inRange 0 3600000) sampleSeries = sampleSeries"
    using sampleSeries_filter by (simp add: inRange_eq)
  have n: "sampleSeries \<noteq> []" "last sampleSeries = \<lparr>t = 3600000, val = 70\<rparr>"
    by (simp_all add: sampleSeries_def)
  show ?thesis
    using n by (simp add: computeMetrics_unfold f sampleSeries_intervalSum
        formatAvailability_hour sampleConfig_def)
qed

text \<open>
  Machines 3 and 5 both have the two-sample series and only machine 5 is flagged: the
  litres and currency totals are those of machine 5 alone, the monthly total is that of
  both.
\<close>

theorem updateSummaryPanel_totals_witness:
  "heatingMotors (updateSummaryPanel sampleConfig
      (Map.empty(3 \<mapsto> sampleSeries, 5 \<mapsto> sampleSeries)) onlyMotor5Heated 0 3600000) = [5] \<and>
   totalLitrosHeating (updateSummaryPanel sampleConfig
      (Map.empty(3 \<mapsto> sampleSeries, 5 \<mapsto> sampleSeries)) onlyMotor5Heated 0 3600000) = 63 / 10 \<and>
   totalRSHeating (updateSummaryPanel sampleConfig
      (Map.empty(3 \<mapsto> sampleSeries, 5 \<mapsto> sampleSeries)) onlyMotor5Heated 0 3600000) = 3339 / 100 \<and>
   totalMonthlyProjection (updateSummaryPanel sampleConfig
      (Map.empty(3 \<mapsto> sampleSeries, 5 \<mapsto> sampleSeries)) onlyMotor5Heated 0 3600000) = 10017 / 5"
proof -
  let ?md = "Map.empty(3 \<mapsto> sampleSeries, 5 \<mapsto> sampleSeries)"
  have n: "sampleSeries \<noteq> []" by (simp add: sampleSeries_def)
  have h: "heatingMotors (updateSummaryPanel sampleConfig ?md onlyMotor5Heated 0 3600000) = [5]"
    using n by (simp add: heatingMotors_unfold onlyMotor5Heated_def hasData_def upto.simps)
  have d: "filter (\<lambda>motorId. \<exists>ps. ?md motorId = Some ps \<and> ps \<noteq> []) [1..23] = [3, 5]"
    using n by (simp add: upto.simps)
  have s: "seriesOf ?md 3 = sampleSeries" "seriesOf ?md 5 = sampleSeries"
    by (simp_all add: seriesOf_def)
  note totals = updateSummaryPanel_totals
    [of sampleConfig ?md onlyMotor5Heated 0 3600000, unfolded h d]
  have l: "totalLitrosHeating (updateSummaryPanel sampleConfig ?md onlyMotor5Heated 0 3600000) =
      63 / 10"
    using totals by (simp add: s sampleSeries_metrics)
  have r: "totalRSHeating (updateSummaryPanel sampleConfig ?md onlyMotor5Heated 0 3600000) =
      3339 / 100"
    using totals by (simp add: s sampleSeries_metrics)
  have m: "totalMonthlyProjection (updateSummaryPanel sampleConfig ?md onlyMotor5Heated 0 3600000) =
      10017 / 5"
    using totals by (simp add: s sampleSeries_metrics)
  show ?thesis using h l r m by blast
qed

text \<open>
  Claim C6, as stated, fails: machine 24 has samples, and a monthly projection of
  1001.70 of its own, and the monthly total leaves it out.
\<close>

theorem updateSummaryPanel_projection_counterexample:
  "(Map.empty(24 \<mapsto> sampleSeries)) 24 = Some sampleSeries \<and> sampleSeries \<noteq> [] \<and>
   economiaMes (computeMetrics sampleConfig sampleSeries 0 3600000) = 10017 / 10 \<and>
   totalMonthlyProjection
     (updateSummaryPanel sampleConfig (Map.empty(24 \<mapsto> sampleSeries)) onlyMotor5Heated
        0 3600000) = 0"
proof -
  have "filter (hasData (Map.empty(24 \<mapsto> sampleSeries))) [1..23] = []"
    by (simp add: hasData_def filter_empty_conv)
  then show ?thesis
    by (simp add: totals_unfold sampleSeries_metrics) (simp add: sampleSeries_def)
qed

section \<open>Properties of buildDataStructure\<close>

lemma seriesOf_empty: "seriesOf Map.empty key = []"
  by (simp add: seriesOf_def)

lemma seriesOf_processCol:
  "seriesOf (processCol pf ts r md col) key = seriesOf md key @ colPoints pf ts r key col"
  by (simp add: colPoints_def processCol_def seriesOf_def split: option.splits)

lemma seriesOf_foldl_processCol:
  "seriesOf (foldl (processCol pf ts r) md cols) key =
     seriesOf md key @ concat (map (colPoints pf ts r key) cols)"
  by (induction cols arbitrary: md) (simp_all add: seriesOf_processCol)

lemma seriesOf_processRow:
  "seriesOf (motorData (processRow pf dp st r)) key =
     seriesOf (motorData st) key @ rowPoints pf dp key r"
proof (cases "parseTimestamp dp (orChain r [''$Date'', ''Date'', ''Data'', ''data''])
                (orChain r [''$Time'', ''Time'', ''Hora'', ''hora''])")
  case None
  then show ?thesis
    by (simp add: processRow_def rowPoints_def Let_def seriesOf_empty)
next
  case (Some ts)
  then show ?thesis
    by (simp add: processRow_def rowPoints_def Let_def seriesOf_foldl_processCol seriesOf_empty)
qed

lemma seriesOf_foldl_processRow:
  "seriesOf (motorData (foldl (processRow pf dp) st rows)) key =
     seriesOf (motorData st) key @ concat (map (rowPoints pf dp key) rows)"
  by (induction rows arbitrary: st) (simp_all add: seriesOf_processRow)

lemma foldl_foldl_concat: "foldl (foldl f) a xss = foldl f a (concat xss)"
  by (induction xss arbitrary: a) simp_all

lemma seriesOf_collectRows:
  "seriesOf (motorData (collectRows pf dp tables)) key = insertionOrder pf dp key tables"
  by (simp add: collectRows_def foldl_foldl_concat seriesOf_foldl_processRow insertionOrder_def
      seriesOf_empty)

lemma buildDataStructure_Some:
  assumes "motorData (buildDataStructure pf dp tables) key = Some s"
  shows "s = sort_key t (insertionOrder pf dp key tables)"
proof -
  from assms obtain s0 where s0: "motorData (collectRows pf dp tables) key = Some s0"
    and s: "s = sort_key t s0"
    by (auto simp: buildDataStructure_def Let_def)
  from s0 have "seriesOf (motorData (collectRows pf dp tables)) key = s0"
    by (simp add: seriesOf_def)
  with s show ?thesis by (simp add: seriesOf_collectRows)
qed

lemma sampleTables_collect:
  "motorData (collectRows sampleParseFloat sampleHostDate sampleTables) 7 =
     Some [\<lparr>t = 1710500400000, val = 70\<rparr>, \<lparr>t = 1710496800000, val = 123 / 2\<rparr>,
           \<lparr>t = 1710496800000, val = 70\<rparr>]"
  by code_simp

lemma sampleTables_insertionOrder:
  "insertionOrder sampleParseFloat sampleHostDate 7 sampleTables =
     [\<lparr>t = 1710500400000, val = 70\<rparr>, \<lparr>t = 1710496800000, val = 123 / 2\<rparr>,
      \<lparr>t = 1710496800000, val = 70\<rparr>]"
  using seriesOf_collectRows [of sampleParseFloat sampleHostDate sampleTables 7]
  by (simp add: sampleTables_collect seriesOf_def)

lemma sampleTables_build:
  "motorData (buildDataStructure sampleParseFloat sampleHostDate sampleTables) 7 =
     Some [\<lparr>t = 1710496800000, val = 123 / 2\<rparr>, \<lparr>t = 1710496800000, val = 70\<rparr>,
           \<lparr>t = 1710500400000, val = 70\<rparr>]"
  by (simp add: buildDataStructure_def Let_def sampleTables_collect)

text \<open>
  Claim C8. Every series in the map that \<open>buildDataStructure\<close> returns is sorted
  non-decreasingly by \<open>t\<close>: it is the stable sort of the samples in insertion order (row
  by row through the tables in the order supplied), so the samples with any one \<open>t\<close>
  keep their insertion order. The later operations only read the series:
  \<open>computeMetrics\<close> and \<open>updateSummaryPanel\<close> return figures, and the window filter
  keeps the order.
\<close>

theorem buildDataStructure_sorted_stable:
  assumes "motorData (buildDataStructure hostParseFloat hostDate tables) key = Some s"
  shows "sorted (map t s) \<and>
         s = sort_key t (insertionOrder hostParseFloat hostDate key tables) \<and>
         (\<forall>k. filter (\<lambda>p. t p = k) s =
               filter (\<lambda>p. t p = k) (insertionOrder hostParseFloat hostDate key tables)) \<and>
         sorted (map t (filter (\<lambda>p. startTime \<le> t p \<and> t p \<le> endTime) s))"
proof -
  have s: "s = sort_key t (insertionOrder hostParseFloat hostDate key tables)"
    using assms by (rule buildDataStructure_Some)
  have srt: "sorted (map t s)" unfolding s by (rule sorted_sort_key)
  have stab: "\<forall>k. filter (\<lambda>p. t p = k) s =
               filter (\<lambda>p. t p = k) (insertionOrder hostParseFloat hostDate key tables)"
    unfolding s by (simp add: sort_key_stable)
  have flt: "sorted (map t (filter (\<lambda>p. startTime \<le> t p \<and> t p \<le> endTime) s))"
    using srt by (rule sorted_filter)
  show ?thesis using s srt stab flt by blast
qed

text \<open>
  The sample tables: machine 7 ends with its two 10:00 samples first, the one of the
  first table before the one of the second, and the 11:00 sample last.
\<close>

theorem buildDataStructure_sorted_stable_witness:
  "motorData (buildDataStructure sampleParseFloat sampleHostDate sampleTables) 7 =
     Some [\<lparr>t = 1710496800000, val = 123 / 2\<rparr>, \<lparr>t = 1710496800000, val = 70\<rparr>,
           \<lparr>t = 1710500400000, val = 70\<rparr>] \<and>
   insertionOrder sampleParseFloat sampleHostDate 7 sampleTables =
     [\<lparr>t = 1710500400000, val = 70\<rparr>, \<lparr>t = 1710496800000, val = 123 / 2\<rparr>,
      \<lparr>t = 1710496800000, val = 70\<rparr>] \<and>
   sorted (map t [\<lparr>t = 1710496800000, val = 123 / 2\<rparr>, \<lparr>t = 1710496800000, val = 70\<rparr>,
                  \<lparr>t = 1710500400000, val = 70\<rparr>]) \<and>
   filter (\<lambda>p. t p = 1710496800000)
       [\<lparr>t = 1710496800000, val = 123 / 2\<rparr>, \<lparr>t = 1710496800000, val = 70\<rparr>,
        \<lparr>t = 1710500400000, val = 70\<rparr>] =
     filter (\<lambda>p. t p = 1710496800000)
       (insertionOrder sampleParseFloat sampleHostDate 7 sampleTables)"
proof -
  note th = buildDataStructure_sorted_stable [OF sampleTables_build, of 0 0]
  from th have stab: "filter (\<lambda>p. t p = 1710496800000)
       [\<lparr>t = 1710496800000, val = 123 / 2\<rparr>, \<lparr>t = 1710496800000, val = 70\<rparr>,
        \<lparr>t = 1710500400000, val = 70\<rparr>] =
     filter (\<lambda>p. t p = 1710496800000)
       (insertionOrder sampleParseFloat sampleHostDate 7 sampleTables)"
    by blast
  from th have srt: "sorted (map t [\<lparr>t = 1710496800000, val = 123 / 2\<rparr>,
      \<lparr>t = 1710496800000, val = 70\<rparr>, \<lparr>t = 1710500400000, val = 70\<rparr>])"
    by blast
  show ?thesis
    using sampleTables_build sampleTables_insertionOrder srt stab by blast
qed

lemma ciPrefix_append:
  "map upperCode s = map upperCode pat @ suf \<Longrightarrow> ciPrefix pat s"
  by (induction pat s arbitrary: suf rule: ciPrefix.induct) auto

lemma ciContains_inside:
  "map upperCode s = pre @ map upperCode pat @ suf \<Longrightarrow> ciContains pat s"
proof (induction s arbitrary: pre)
  case Nil
  then show ?case by (cases pat) auto
next
  case (Cons c cs)
  show ?case
  proof (cases pre)
    case Nil
    with Cons.prems have "ciPrefix pat (c # cs)"
      by (intro ciPrefix_append[of _ _ suf]) simp
    then show ?thesis by simp
  next
    case (Cons x pre')
    with Cons.prems have "map upperCode cs = pre' @ map upperCode pat @ suf" by simp
    then have "ciContains pat cs" by (rule Cons.IH)
    then show ?thesis by simp
  qed
qed

text \<open>
  Claim C9. A column whose name contains, in any letter case and at any place, one of
  \<open>Date\<close>, \<open>Time\<close>, \<open>Data\<close>, \<open>Hora\<close> leaves the series map as it was, for every row,
  timestamp and cell: it adds no sample to the series of any machine, even when the name
  also carries the marker \<open>SCA\<close> with two digits and the cell is a number.
\<close>

theorem processCol_skips_date_time_names:
  assumes "w \<in> {''Date'', ''Time'', ''Data'', ''Hora''}"
    and "map upperCode col = pre @ map upperCode w @ suf"
  shows "processCol hostParseFloat ts r md col = md \<and>
         colPoints hostParseFloat ts r key col = []"
proof -
  have "ciContains w col" using assms(2) by (rule ciContains_inside)
  with assms(1) have "isDateTimeCol col" by (auto simp: isDateTimeCol_def)
  then show ?thesis by (simp add: processCol_def colPoints_def seriesOf_empty)
qed

text \<open>
  The sensor column \<open>SCA07DataTE\<close> of the sample tables names machine 7 and its cell 55
  is a number, yet no sample with the value 55 reaches machine 7.
\<close>

theorem processCol_skips_date_time_names_witness:
  "''Data'' \<in> {''Date'', ''Time'', ''Data'', ''Hora''} \<and>
   map upperCode ''SCA07DataTE'' =
     map upperCode ''SCA07'' @ map upperCode ''Data'' @ map upperCode ''TE'' \<and>
   matchSCA ''SCA07DataTE'' = Some ''07'' \<and> parseInt ''07'' = Some 7 \<and>
   sampleParseFloat (replaceFirst CHR '','' CHR ''.'' ''55'') = Some 55 \<and>
   colPoints sampleParseFloat 1710496800000
     [(''$Date'', ''15/03/24''), (''$Time'', ''10:00''), (''SCA071TE402PV'', ''61,5''),
      (''SCA07DataTE'', ''55'')] 7 ''SCA07DataTE'' = [] \<and>
   insertionOrder sampleParseFloat sampleHostDate 7 sampleTables =
     [\<lparr>t = 1710500400000, val = 70\<rparr>, \<lparr>t = 1710496800000, val = 123 / 2\<rparr>,
      \<lparr>t = 1710496800000, val = 70\<rparr>]"
proof -
  have w: "''Data'' \<in> {''Date'', ''Time'', ''Data'', ''Hora''}" by simp
  have inside: "map upperCode ''SCA07DataTE'' =
     map upperCode ''SCA07'' @ map upperCode ''Data'' @ map upperCode ''TE''"
    by simp
  have marker: "matchSCA ''SCA07DataTE'' = Some ''07''"
    by (simp add: upperCode_def isDigit_def)
  have seven: "parseInt ''07'' = Some 7"
    by (simp add: text_defs)
  have cell: "sampleParseFloat (replaceFirst CHR '','' CHR ''.'' ''55'') = Some 55"
    by (simp add: sampleParseFloat_def)
  note th = processCol_skips_date_time_names [OF w inside, of sampleParseFloat 1710496800000
      "[(''$Date'', ''15/03/24''), (''$Time'', ''10:00''), (''SCA071TE402PV'', ''61,5''),
        (''SCA07DataTE'', ''55'')]" Map.empty 7]
  from th have none: "colPoints sampleParseFloat 1710496800000
     [(''$Date'', ''15/03/24''), (''$Time'', ''10:00''), (''SCA071TE402PV'', ''61,5''),
      (''SCA07DataTE'', ''55'')] 7 ''SCA07DataTE'' = []"
    by blast
  show ?thesis
    using w inside marker seven cell none sampleTables_insertionOrder by blast
qed

end
